theory Spec2Isabelle
  imports Main "HOL-Library.Sublist"
begin

section \<open>The deployment pipeline of golang-lambda-deployer\<close>

text \<open>
  The program is the latest of the three revisions in the repository: the command
  \<open>runDeploy\<close> and the package \<open>pkg/deployer\<close> (\<open>Deployer\<close>, \<open>Build\<close>, \<open>Deploy\<close>,
  \<open>TailLogs\<close>). Everything the program does is a call of the cloud platform through the
  AWS SDK, an operation on the local machine (git, the Go toolchain, files) or a line of
  output. The answers of the platform and of the machine are parameters of the model;
  the calls, the local operations and the output are recorded, in program order, in a
  trace. A Go \<open>string\<close> is a byte sequence, here a \<open>string\<close> (a \<open>char list\<close>); a Go
  \<open>*string\<close> is a \<open>string option\<close>, \<open>None\<close> for \<open>nil\<close>; a Go \<open>error\<close> is the text that
  \<open>%v\<close> prints for it.
\<close>

subsection \<open>Traces and outcomes\<close>

type_synonym err = string

text \<open>
  The requests sent to the platform, with the fields the program sets. \<open>DeleteObjectCall\<close>
  is the blob store's removal request; the program has no code that sends it.
\<close>

datatype call =
    ListFunctionsCall "string option"
      \<comment> \<open>Marker\<close>
  | ListBucketsCall
  | GetFunctionConfigurationCall string
      \<comment> \<open>FunctionName\<close>
  | UploadCall string string string string
      \<comment> \<open>Bucket, Key, the file read as Body, ServerSideEncryption\<close>
  | UpdateFunctionCodeCall string string string
      \<comment> \<open>FunctionName, S3Bucket, S3Key\<close>
  | WaitFunctionUpdatedCall string nat
      \<comment> \<open>FunctionName, the maximum wait in nanoseconds\<close>
  | PublishVersionCall string
      \<comment> \<open>FunctionName\<close>
  | UpdateAliasCall string string "string option"
      \<comment> \<open>FunctionName, Name, FunctionVersion\<close>
  | DescribeLogGroupsCall "string option" "string option"
      \<comment> \<open>LogGroupNamePrefix, NextToken\<close>
  | StartLiveTailCall "string list" string
      \<comment> \<open>LogGroupIdentifiers, LogEventFilterPattern\<close>
  | StreamCloseCall
  | DeleteObjectCall string string
      \<comment> \<open>Bucket, Key\<close>

text \<open>The operations on the local machine.\<close>

datatype local_op =
    LoadDefaultConfig
  | GitRevParse nat
      \<comment> \<open>\<open>git rev-parse HEAD\<close>; the number tells the invocations of one run apart\<close>
  | GitStatus nat
      \<comment> \<open>\<open>git status --porcelain\<close>\<close>
  | GoBuild string string
      \<comment> \<open>\<open>go build\<close> with the commit string in the linker flags and with \<open>GOARCH\<close>\<close>
  | Chmod string
  | CreateFile string
  | OpenFile string
  | ZipCreate string
  | ZipCopy
  | ZipClose
  | Sleep nat
      \<comment> \<open>seconds\<close>

datatype event =
    Call call
  | Local local_op
  | Stdout string
      \<comment> \<open>\<open>fmt.Println\<close>, \<open>fmt.Printf\<close>\<close>
  | Logged string
      \<comment> \<open>\<open>log.Println\<close>, \<open>log.Fatalf\<close>: the standard logger, which writes to standard error\<close>

text \<open>
  How a piece of the program can stop without a result: \<open>os.Exit(1)\<close>, a run-time panic
  (a \<open>nil\<close> dereference, an index or a slice bound out of range), or, in the model only,
  a loop that is still running when its fuel is used up.
\<close>

datatype halt = Exit1 | Panic | OutOfFuel

type_synonym 'a proc = "event list \<times> (halt + 'a)"

definition andThen :: "'a proc \<Rightarrow> ('a \<Rightarrow> 'b proc) \<Rightarrow> 'b proc" where
  "andThen m f =
     (case m of
        (tr, Inl h) \<Rightarrow> (tr, Inl h)
      | (tr, Inr x) \<Rightarrow> (case f x of (tr', r) \<Rightarrow> (tr @ tr', r)))"

definition Println1 :: "string \<Rightarrow> string" where
  "Println1 a = a @ [CHR 0x0A]"

definition Println2 :: "string \<Rightarrow> string \<Rightarrow> string" where
  "Println2 a b = a @ '' '' @ b @ [CHR 0x0A]"

subsection \<open>The log-tail consumer\<close>

text \<open>
  The members of the SDK's union \<open>StartLiveTailResponseStream\<close> as the type switch of
  \<open>handleEventStreamAsync\<close> sees them: the two members it names, any other member (with
  the name of its type), and the \<open>nil\<close> interface value. A session update carries the
  \<open>Message\<close> pointers of its \<open>SessionResults\<close>.
\<close>

datatype frame =
    SessionStart
  | SessionUpdate "string option list"
  | OtherMember string
  | NilFrame

text \<open>How the consumer goroutine ends, or that it is waiting on the channel.\<close>

datatype consumer_end = Returned | Fatal | Crashed | Waiting

text \<open>The inner \<open>for ... range\<close>: one \<open>log.Println(*logEvent.Message)\<close> per result.\<close>

fun printResults :: "string option list \<Rightarrow> event list \<times> bool" where
  "printResults [] = ([], True)"
| "printResults (None # rs) = ([], False)"
| "printResults (Some msg # rs) =
     (case printResults rs of (out, ok) \<Rightarrow> (Logged (Println1 msg) # out, ok))"

text \<open>
  \<open>handleEventStreamAsync\<close>. The argument is what the channel \<open>stream.Events()\<close> delivers,
  each frame paired with the value \<open>stream.Err()\<close> has while that frame is handled (the
  code reads it in the \<open>default\<close> branch only). At the end of the list the consumer
  waits for the next frame.
\<close>

fun handleEventStreamAsync :: "(frame \<times> err option) list \<Rightarrow> event list \<times> consumer_end" where
  "handleEventStreamAsync [] = ([], Waiting)"
| "handleEventStreamAsync ((SessionStart, _) # fs) =
     (case handleEventStreamAsync fs of
        (out, r) \<Rightarrow> (Stdout (Println1 ''Logs streaming session started'') # out, r))"
| "handleEventStreamAsync ((SessionUpdate results, _) # fs) =
     (case printResults results of
        (out, False) \<Rightarrow> (out, Crashed)
      | (out, True) \<Rightarrow> (case handleEventStreamAsync fs of (out', r) \<Rightarrow> (out @ out', r)))"
| "handleEventStreamAsync ((e, Some er) # fs) =
     ([Logged (Println1 (''Error occured during streaming: '' @ er))], Fatal)"
| "handleEventStreamAsync ((NilFrame, None) # fs) = ([], Returned)"
| "handleEventStreamAsync ((OtherMember t, None) # fs) =
     ([Logged (Println1 (''Unknown event type: '' @ t))], Fatal)"

subsection \<open>The platform and the local machine\<close>

record ListFunctionsOutput =
  Functions :: "string option list"
    \<comment> \<open>the \<open>FunctionName\<close> pointer of each entry\<close>
  NextMarker :: "string option"

record LogGroup =
  logGroupName :: "string option"
  arn :: "string option"

record DescribeLogGroupsOutput =
  LogGroups :: "LogGroup list"
  NextToken :: "string option"

text \<open>
  What the platform answers to each request: \<open>Inl\<close> (or \<open>Some\<close>) is the error the SDK
  returns. \<open>StartLiveTail\<close> answers with the stream, given as the frames that reach the
  consumer before the caller closes the stream.
\<close>

record platform =
  ListFunctions :: "string option \<Rightarrow> err + ListFunctionsOutput"
  ListBuckets :: "err + string option list"
    \<comment> \<open>the \<open>Name\<close> pointer of each bucket\<close>
  GetFunctionConfiguration :: "string \<Rightarrow> err + string list"
    \<comment> \<open>\<open>Architectures\<close>\<close>
  Upload :: "string \<Rightarrow> string \<Rightarrow> string \<Rightarrow> string \<Rightarrow> err option"
  UpdateFunctionCode :: "string \<Rightarrow> string \<Rightarrow> string \<Rightarrow> err option"
  WaitFunctionUpdated :: "string \<Rightarrow> nat \<Rightarrow> err option"
  PublishVersion :: "string \<Rightarrow> err + string option"
    \<comment> \<open>\<open>Version\<close>\<close>
  UpdateAlias :: "string \<Rightarrow> string \<Rightarrow> string option \<Rightarrow> err option"
  DescribeLogGroups :: "string option \<Rightarrow> string option \<Rightarrow> err + DescribeLogGroupsOutput"
  StartLiveTail :: "string list \<Rightarrow> string \<Rightarrow> err + (frame \<times> err option) list"

text \<open>What a local operation returns: its error, or its output (of the git commands).\<close>

record machine =
  perform :: "local_op \<Rightarrow> err + string"

record DeployConfig =
  Env :: string
  AppName :: string
  LambdaName :: string
  SourceCodeFilename :: string
  BuildsBucket :: string
  LogGroupName :: string

text \<open>One platform call or local operation that ends the run when it fails.\<close>

definition orExit :: "event \<Rightarrow> string \<Rightarrow> err + 'a \<Rightarrow> 'a proc" where
  "orExit ev what r =
     (case r of
        Inl e \<Rightarrow> ([ev, Stdout (Println2 what e)], Inl Exit1)
      | Inr x \<Rightarrow> ([ev], Inr x))"

definition failed :: "err option \<Rightarrow> err + unit" where
  "failed r = (case r of Some e \<Rightarrow> Inl e | None \<Rightarrow> Inr ())"

definition say :: "string \<Rightarrow> unit proc" where
  "say s = ([Stdout s], Inr ())"

subsection \<open>Go library functions\<close>

fun Join :: "string list \<Rightarrow> string \<Rightarrow> string" where
  "Join [] sep = []"
| "Join [a] sep = a"
| "Join (a # b # bs) sep = a @ sep @ Join (b # bs) sep"

definition TrimSuffix :: "string \<Rightarrow> string \<Rightarrow> string" where
  "TrimSuffix s suf =
     (if length suf \<le> length s \<and> drop (length s - length suf) s = suf
      then take (length s - length suf) s else s)"

text \<open>
  \<open>strings.TrimSpace\<close> on ASCII text, which is what git prints: the white space is tab,
  line feed, vertical tab, form feed, carriage return and space. (On other text Go also
  removes the multi-byte encodings of Unicode's white space.)
\<close>

definition asciiSpace :: "char \<Rightarrow> bool" where
  "asciiSpace c = (c \<in> set [CHR 0x09, CHR 0x0A, CHR 0x0B, CHR 0x0C, CHR 0x0D, CHR 0x20])"

definition TrimSpace :: "string \<Rightarrow> string" where
  "TrimSpace s = rev (dropWhile asciiSpace (rev (dropWhile asciiSpace s)))"

subsection \<open>The target resolver\<close>

fun contains :: "string list \<Rightarrow> string \<Rightarrow> bool" where
  "contains [] item = False"
| "contains (s # slice) item = (if s = item then True else contains slice item)"

text \<open>
  \<open>names = append(names, *x.Name)\<close> over the entries of one response; \<open>None\<close> is the
  panic at a \<open>nil\<close> pointer.
\<close>

fun appendNames :: "string list \<Rightarrow> string option list \<Rightarrow> string list option" where
  "appendNames names [] = Some names"
| "appendNames names (None # xs) = None"
| "appendNames names (Some n # xs) = appendNames (names @ [n]) xs"

text \<open>
  The loop of \<open>GetAvailableFunctions\<close>, entered with the names collected so far and the
  marker to send. The fuel bounds the number of requests of one listing.
\<close>

fun listFunctionsFrom :: "platform \<Rightarrow> nat \<Rightarrow> string list \<Rightarrow> string option \<Rightarrow> string list proc" where
  "listFunctionsFrom p 0 functionNames nextMarker = ([], Inl OutOfFuel)"
| "listFunctionsFrom p (Suc fuel) functionNames nextMarker =
     andThen (orExit (Call (ListFunctionsCall nextMarker)) ''Error listing Lambda functions:''
                (ListFunctions p nextMarker))
       (\<lambda>output.
          case appendNames functionNames (Functions output) of
            None \<Rightarrow> ([], Inl Panic)
          | Some functionNames' \<Rightarrow>
              (case NextMarker output of
                 None \<Rightarrow> ([], Inr functionNames')
               | Some m \<Rightarrow> listFunctionsFrom p fuel functionNames' (Some m)))"

definition GetAvailableFunctions :: "platform \<Rightarrow> nat \<Rightarrow> string list proc" where
  "GetAvailableFunctions p fuel = listFunctionsFrom p fuel [] None"

definition GetAvailableBuckets :: "platform \<Rightarrow> string list proc" where
  "GetAvailableBuckets p =
     andThen (orExit (Call ListBucketsCall) ''Error listing S3 buckets:'' (ListBuckets p))
       (\<lambda>buckets.
          case appendNames [] buckets of
            None \<Rightarrow> ([], Inl Panic)
          | Some bucketNames \<Rightarrow> ([], Inr bucketNames))"

text \<open>The loop of \<open>getAvailableLogGroups\<close>.\<close>

fun describeLogGroupsFrom :: "platform \<Rightarrow> nat \<Rightarrow> string list \<Rightarrow> string option \<Rightarrow> string list proc" where
  "describeLogGroupsFrom p 0 logGroupNames nextToken = ([], Inl OutOfFuel)"
| "describeLogGroupsFrom p (Suc fuel) logGroupNames nextToken =
     andThen (orExit (Call (DescribeLogGroupsCall None nextToken)) ''Error describing log groups:''
                (DescribeLogGroups p None nextToken))
       (\<lambda>output.
          case appendNames logGroupNames (map logGroupName (LogGroups output)) of
            None \<Rightarrow> ([], Inl Panic)
          | Some logGroupNames' \<Rightarrow>
              (case NextToken output of
                 None \<Rightarrow> ([], Inr logGroupNames')
               | Some t \<Rightarrow> describeLogGroupsFrom p fuel logGroupNames' (Some t)))"

definition getAvailableLogGroups :: "platform \<Rightarrow> nat \<Rightarrow> string list proc" where
  "getAvailableLogGroups p fuel = describeLogGroupsFrom p fuel [] None"

text \<open>
  The check that follows each listing in \<open>runDeploy\<close> and \<open>TailLogs\<close>: two lines of
  output and \<open>os.Exit(1)\<close> when the name is not in the listing.
\<close>

definition requireListed :: "string list \<Rightarrow> string \<Rightarrow> string \<Rightarrow> string \<Rightarrow> unit proc" where
  "requireListed available item missing listing =
     (if \<not> contains available item
      then ([Stdout missing, Stdout (listing @ Join available '', '' @ [CHR 0x0A])], Inl Exit1)
      else ([], Inr ()))"

subsection \<open>The artifact builder\<close>

text \<open>
  \<open>getCurrentGitCommit\<close>: both git commands run before the revision is cut to seven
  bytes; \<open>[0:7]\<close> panics on a shorter string.
\<close>

definition getCurrentGitCommit :: "machine \<Rightarrow> nat \<Rightarrow> string proc" where
  "getCurrentGitCommit m k =
     andThen (orExit (Local (GitRevParse k)) ''Error getting current Git commit:''
                (perform m (GitRevParse k)))
       (\<lambda>commit.
     andThen (orExit (Local (GitStatus k)) ''Error checking git status:''
                (perform m (GitStatus k)))
       (\<lambda>status.
          if length (TrimSpace commit) < 7 then ([], Inl Panic)
          else ([], Inr (take 7 (TrimSpace commit) @ (if 0 < length status then ''-dirty'' else [])))))"

definition determineFunctionArch :: "platform \<Rightarrow> DeployConfig \<Rightarrow> string proc" where
  "determineFunctionArch p cfg =
     andThen (orExit (Call (GetFunctionConfigurationCall (LambdaName cfg)))
                ''Error getting function configuration:''
                (GetFunctionConfiguration p (LambdaName cfg)))
       (\<lambda>architectures.
     andThen (say (Println2 ''Architecture: '' (''['' @ Join architectures '' '' @ '']'')))
       (\<lambda>_.
          case architectures of
            [] \<Rightarrow> ([], Inl Panic)
          | a # _ \<Rightarrow> ([], Inr (if a = ''arm64'' then ''arm64'' else ''amd64''))))"

text \<open>\<open>Build\<close> stores the name of the archive in the configuration, which it returns.\<close>

definition Build :: "platform \<Rightarrow> machine \<Rightarrow> DeployConfig \<Rightarrow> DeployConfig proc" where
  "Build p m cfg =
     andThen (getCurrentGitCommit m 0)
       (\<lambda>currentGitCommit.
     andThen (determineFunctionArch p cfg)
       (\<lambda>goarch.
     andThen (orExit (Local (GoBuild currentGitCommit goarch)) ''Error building the project:''
                (perform m (GoBuild currentGitCommit goarch)))
       (\<lambda>_.
     andThen (orExit (Local (Chmod ''bootstrap''))
                ''Error setting executable permissions on binary:''
                (perform m (Chmod ''bootstrap'')))
       (\<lambda>_.
     andThen (getCurrentGitCommit m 1)
       (\<lambda>commit.
     andThen (orExit (Local (CreateFile (LambdaName cfg @ ''-'' @ commit @ ''.zip'')))
                ''Error creating zip file:''
                (perform m (CreateFile (LambdaName cfg @ ''-'' @ commit @ ''.zip''))))
       (\<lambda>_.
     andThen (orExit (Local (OpenFile ''bootstrap'')) ''Error opening binary file:''
                (perform m (OpenFile ''bootstrap'')))
       (\<lambda>_.
     andThen (orExit (Local (ZipCreate ''bootstrap'')) ''Error creating zip entry:''
                (perform m (ZipCreate ''bootstrap'')))
       (\<lambda>_.
     andThen (orExit (Local ZipCopy) ''Error writing binary to zip:'' (perform m ZipCopy))
       (\<lambda>_.
     andThen (orExit (Local ZipClose) ''Error finalizing zip file:'' (perform m ZipClose))
       (\<lambda>_.
          ([], Inr (cfg\<lparr>SourceCodeFilename := LambdaName cfg @ ''-'' @ commit @ ''.zip''\<rparr>))))))))))))"

subsection \<open>Publisher, waiter and promoter\<close>

definition uploadToS3 :: "platform \<Rightarrow> machine \<Rightarrow> DeployConfig \<Rightarrow> unit proc" where
  "uploadToS3 p m cfg =
     andThen (orExit (Local (OpenFile (SourceCodeFilename cfg))) ''Error opening zip file:''
                (perform m (OpenFile (SourceCodeFilename cfg))))
       (\<lambda>_.
     andThen (orExit (Call (UploadCall (BuildsBucket cfg) (SourceCodeFilename cfg)
                              (SourceCodeFilename cfg) ''AES256''))
                ''Error uploading zip to S3:''
                (failed (Upload p (BuildsBucket cfg) (SourceCodeFilename cfg)
                              (SourceCodeFilename cfg) ''AES256'')))
       (\<lambda>_.
          say (''Released '' @ SourceCodeFilename cfg @ '' to '' @ BuildsBucket cfg @ [CHR 0x0A])))"

text \<open>\<open>time.Minute\<close>, in nanoseconds.\<close>

definition Minute :: nat where
  "Minute = 60 * 1000000000"

definition Deploy :: "platform \<Rightarrow> machine \<Rightarrow> DeployConfig \<Rightarrow> unit proc" where
  "Deploy p m cfg =
     andThen (uploadToS3 p m cfg)
       (\<lambda>_.
     andThen (orExit (Call (UpdateFunctionCodeCall (LambdaName cfg) (BuildsBucket cfg)
                              (SourceCodeFilename cfg)))
                ''Error updating Lambda function code:''
                (failed (UpdateFunctionCode p (LambdaName cfg) (BuildsBucket cfg)
                              (SourceCodeFilename cfg))))
       (\<lambda>_.
     andThen (say (Println1 ''Waiting for the function to be updated...''))
       (\<lambda>_.
     andThen (orExit (Call (WaitFunctionUpdatedCall (LambdaName cfg) (5 * Minute)))
                ''Error waiting for function update:''
                (failed (WaitFunctionUpdated p (LambdaName cfg) (5 * Minute))))
       (\<lambda>_.
     andThen (orExit (Call (PublishVersionCall (LambdaName cfg)))
                ''Error publishing new Lambda version:''
                (PublishVersion p (LambdaName cfg)))
       (\<lambda>version.
     andThen (orExit (Call (UpdateAliasCall (LambdaName cfg) ''canary'' version))
                (''Error updating Lambda alias '' @ [CHR 0x27] @ ''canary'' @ [CHR 0x27] @ '':'')
                (failed (UpdateAlias p (LambdaName cfg) ''canary'' version)))
       (\<lambda>_.
          case version of
            None \<Rightarrow> ([], Inl Panic)
          | Some v \<Rightarrow>
              say (''Published new version '' @ v @ '' and updated alias '' @ [CHR 0x27]
                   @ ''canary'' @ [CHR 0x27] @ '' to point to it'' @ [CHR 0x0A])))))))"

subsection \<open>The log tail session\<close>

definition getARNofLogGroup :: "platform \<Rightarrow> DeployConfig \<Rightarrow> string proc" where
  "getARNofLogGroup p cfg =
     andThen (orExit (Call (DescribeLogGroupsCall (Some (LogGroupName cfg)) None))
                ''Error describing log groups:''
                (DescribeLogGroups p (Some (LogGroupName cfg)) None))
       (\<lambda>output.
          case LogGroups output of
            [] \<Rightarrow> ([Stdout (''No log groups found for the given prefix '' @ LogGroupName cfg
                             @ [CHR 0x0A])], Inl Exit1)
          | g # _ \<Rightarrow>
              (case arn g of
                 None \<Rightarrow> ([], Inl Panic)
               | Some a \<Rightarrow> ([], Inr (TrimSuffix a '':*''))))"

definition quoted :: "string \<Rightarrow> string" where
  "quoted s = [CHR 0x22] @ s @ [CHR 0x22]"

definition filterPattern :: string where
  "filterPattern =
     ''-'' @ quoted ''START RequestId'' @ '' -'' @ quoted ''REPORT RequestId'' @ '' -''
     @ quoted ''END RequestId'' @ '' -'' @ quoted ''INIT_START Runtime'' @ '' -''
     @ quoted ''EXTENSION''"

text \<open>
  \<open>TailLogs\<close>. The consumer runs as a goroutine while the caller sleeps for 300 seconds;
  the caller does nothing else in that time, so the trace is the consumer's output on
  the frames of the session, then the end of the sleep and the closing of the stream.
  A fatal log call or a panic in the goroutine ends the process.
\<close>

definition TailLogs :: "platform \<Rightarrow> DeployConfig \<Rightarrow> nat \<Rightarrow> unit proc" where
  "TailLogs p cfg fuel =
     andThen (getAvailableLogGroups p fuel)
       (\<lambda>availableLogGroups.
     andThen (requireListed availableLogGroups (LogGroupName cfg)
                (''Log group '' @ LogGroupName cfg @ '' does not exist'' @ [CHR 0x0A])
                ''Available log groups are: '')
       (\<lambda>_.
     andThen (getARNofLogGroup p cfg)
       (\<lambda>a.
          case StartLiveTail p [a] filterPattern of
            Inl e \<Rightarrow>
              ([Call (StartLiveTailCall [a] filterPattern),
                Logged (Println1 (''Failed to start streaming: '' @ e))], Inl Exit1)
          | Inr frames \<Rightarrow>
              (case handleEventStreamAsync frames of
                 (out, Fatal) \<Rightarrow> (Call (StartLiveTailCall [a] filterPattern) # out, Inl Exit1)
               | (out, Crashed) \<Rightarrow> (Call (StartLiveTailCall [a] filterPattern) # out, Inl Panic)
               | (out, _) \<Rightarrow>
                   (Call (StartLiveTailCall [a] filterPattern) # out
                    @ [Local (Sleep 300), Call StreamCloseCall], Inr ())))))"

subsection \<open>The command\<close>

definition InitAWSClient :: "machine \<Rightarrow> unit proc" where
  "InitAWSClient m =
     andThen (orExit (Local LoadDefaultConfig) ''Error loading AWS configuration:''
                (perform m LoadDefaultConfig))
       (\<lambda>_. ([], Inr ()))"

text \<open>
  \<open>runDeploy\<close>, from the configuration that \<open>LoadConfigOrDefaults\<close> returned and the
  flag \<open>--tail\<close>.
\<close>

definition runDeploy :: "platform \<Rightarrow> machine \<Rightarrow> DeployConfig \<Rightarrow> bool \<Rightarrow> nat \<Rightarrow> unit proc" where
  "runDeploy p m cfg tail fuel =
     andThen (InitAWSClient m)
       (\<lambda>_.
     andThen (GetAvailableFunctions p fuel)
       (\<lambda>availableFunctions.
     andThen (requireListed availableFunctions (LambdaName cfg)
                (''Lambda function '' @ [CHR 0x27] @ LambdaName cfg @ [CHR 0x27]
                 @ '' does not exist'' @ [CHR 0x0A])
                ''Available functions are: '')
       (\<lambda>_.
     andThen (GetAvailableBuckets p)
       (\<lambda>availableBuckets.
     andThen (requireListed availableBuckets (BuildsBucket cfg)
                (''S3 bucket '' @ BuildsBucket cfg @ '' does not exist'' @ [CHR 0x0A])
                ''Available buckets are: '')
       (\<lambda>_.
     andThen (Build p m cfg)
       (\<lambda>cfg'.
     andThen (Deploy p m cfg')
       (\<lambda>_.
          if tail then TailLogs p cfg' fuel else ([], Inr ()))))))))"

subsection \<open>Observations on traces\<close>

text \<open>The platform calls of a trace, the lines written by the logger, and standard output.\<close>

fun calls :: "event list \<Rightarrow> call list" where
  "calls [] = []"
| "calls (Call c # es) = c # calls es"
| "calls (e # es) = calls es"

fun rendered :: "event list \<Rightarrow> string list" where
  "rendered [] = []"
| "rendered (Logged s # es) = s # rendered es"
| "rendered (e # es) = rendered es"

fun printed :: "event list \<Rightarrow> string list" where
  "printed [] = []"
| "printed (Stdout s # es) = s # printed es"
| "printed (e # es) = printed es"

text \<open>The calls that change the state of the platform.\<close>

fun mutating :: "call \<Rightarrow> bool" where
  "mutating (UploadCall b k f sse) = True"
| "mutating (UpdateFunctionCodeCall n b k) = True"
| "mutating (PublishVersionCall n) = True"
| "mutating (UpdateAliasCall n a v) = True"
| "mutating (DeleteObjectCall b k) = True"
| "mutating c = False"

subsection \<open>Scenarios\<close>

text \<open>
  An account with three functions on two pages, one bucket, and the given log groups on
  two pages; a query by prefix returns the groups whose name has the prefix, in the
  account's order. Every request succeeds, \<open>PublishVersion\<close> returns version 7, and the
  live tail delivers the given frames.
\<close>

definition named :: "string \<Rightarrow> LogGroup \<Rightarrow> bool" where
  "named pfx g = (case logGroupName g of None \<Rightarrow> False | Some n \<Rightarrow> prefix pfx n)"

definition cloud :: "LogGroup list \<Rightarrow> LogGroup list \<Rightarrow> (frame \<times> err option) list \<Rightarrow> platform" where
  "cloud page1 page2 frames =
     \<lparr>ListFunctions = (\<lambda>marker.
        if marker = None
        then Inr \<lparr>Functions = [Some ''orders-stag''], NextMarker = Some ''m1''\<rparr>
        else if marker = Some ''m1''
        then Inr \<lparr>Functions = [Some ''orders-prod'', Some ''svc-prod''], NextMarker = None\<rparr>
        else Inl ''InvalidParameterValueException''),
      ListBuckets = Inr [Some ''e4f-builds''],
      GetFunctionConfiguration = (\<lambda>n. Inr [''arm64'']),
      Upload = (\<lambda>b k f sse. None),
      UpdateFunctionCode = (\<lambda>n b k. None),
      WaitFunctionUpdated = (\<lambda>n d. None),
      PublishVersion = (\<lambda>n. Inr (Some ''7'')),
      UpdateAlias = (\<lambda>n a v. None),
      DescribeLogGroups = (\<lambda>pfx token.
        case pfx of
          Some x \<Rightarrow> Inr \<lparr>LogGroups = filter (named x) (page1 @ page2), NextToken = None\<rparr>
        | None \<Rightarrow>
            if token = None then Inr \<lparr>LogGroups = page1, NextToken = Some ''t1''\<rparr>
            else if token = Some ''t1'' then Inr \<lparr>LogGroups = page2, NextToken = None\<rparr>
            else Inl ''InvalidParameterException''),
      StartLiveTail = (\<lambda>ids pat. Inr frames)\<rparr>"

definition logGroup :: "string \<Rightarrow> LogGroup" where
  "logGroup n =
     \<lparr>logGroupName = Some n,
      arn = Some (''arn:aws:logs:us-east-1:123456789012:log-group:'' @ n @ '':*'')\<rparr>"

text \<open>A machine on which every operation succeeds, with the given output of the git commands.\<close>

definition workstation :: "string \<Rightarrow> string \<Rightarrow> machine" where
  "workstation revision status =
     \<lparr>perform = (\<lambda>op.
        case op of
          GitRevParse k \<Rightarrow> Inr revision
        | GitStatus k \<Rightarrow> Inr status
        | _ \<Rightarrow> Inr [])\<rparr>"

definition target :: "string \<Rightarrow> string \<Rightarrow> DeployConfig" where
  "target app e =
     \<lparr>Env = e, AppName = app, LambdaName = app @ ''-'' @ e, SourceCodeFilename = [],
      BuildsBucket = ''e4f-builds'', LogGroupName = ''/aws/lambda/'' @ app @ ''-'' @ e\<rparr>"

text \<open>
  A session in which, after the start and one line, a member of an unknown type arrives
  while the stream reports an error; two more frames follow it.
\<close>

definition brokenSession :: "(frame \<times> err option) list" where
  "brokenSession =
     [(SessionStart, None), (SessionUpdate [Some ''line1''], None)]
     @ (OtherMember ''*types.UnknownUnionMember'', Some ''SessionStreamingException'')
     # [(SessionUpdate [Some ''line2''], None), (NilFrame, None)]"

subsection \<open>Paginated listings\<close>

text \<open>
  The platform answers a listing in the given pages, each a list of names with the
  continuation token of its response: the request with the given token is answered by
  the first page, the request with that page's token by the next one, and the last page
  is the one without a token.
\<close>

fun functionPages :: "platform \<Rightarrow> string option \<Rightarrow> (string list \<times> string option) list \<Rightarrow> bool" where
  "functionPages p marker [] = False"
| "functionPages p marker ((names, next) # pages) =
     ((case ListFunctions p marker of
         Inl e \<Rightarrow> False
       | Inr output \<Rightarrow> Functions output = map Some names \<and> NextMarker output = next)
      \<and> (if pages = [] then next = None else next \<noteq> None \<and> functionPages p next pages))"

fun logGroupPages :: "platform \<Rightarrow> string option \<Rightarrow> (string list \<times> string option) list \<Rightarrow> bool" where
  "logGroupPages p token [] = False"
| "logGroupPages p token ((names, next) # pages) =
     ((case DescribeLogGroups p None token of
         Inl e \<Rightarrow> False
       | Inr output \<Rightarrow> map logGroupName (LogGroups output) = map Some names \<and> NextToken output = next)
      \<and> (if pages = [] then next = None else next \<noteq> None \<and> logGroupPages p next pages))"

text \<open>The two calls of the version promoter.\<close>

fun promoterCall :: "call \<Rightarrow> bool" where
  "promoterCall (PublishVersionCall n) = True"
| "promoterCall (UpdateAliasCall n a v) = True"
| "promoterCall c = False"

text \<open>The configuration after a build at revision \<open>abc1234\<close> of a clean tree.\<close>

definition released :: DeployConfig where
  "released = (target ''orders'' ''stag'')\<lparr>SourceCodeFilename := ''orders-stag-abc1234.zip''\<rparr>"

text \<open>The account whose only functions are \<open>a\<close>, \<open>b\<close> and \<open>c\<close>.\<close>

definition abcAccount :: platform where
  "abcAccount = (cloud [] [] [])\<lparr>ListFunctions :=
            \<lambda>marker. Inr \<lparr>Functions = [Some ''a'', Some ''b'', Some ''c''], NextMarker = None\<rparr>\<rparr>"

text \<open>
  An account with two log groups whose names begin with \<open>/aws/lambda/orders-stag\<close>, the
  longer name first in the account's order.
\<close>

definition twoGroups :: platform where
  "twoGroups =
     cloud [logGroup ''/aws/lambda/orders-stag-authorizer'', logGroup ''/aws/lambda/orders-stag'']
       [] [(SessionStart, None)]"

text \<open>
  A machine at revision \<open>abc1234def0\<close> with a clean tree, and an account whose only log
  group is \<open>/aws/lambda/orders-prod\<close>.
\<close>

definition devbox :: machine where
  "devbox = workstation (''abc1234def0'' @ [CHR 0x0A]) []"

definition prodOnly :: platform where
  "prodOnly = cloud [logGroup ''/aws/lambda/orders-prod''] [] []"

section \<open>Properties\<close>

subsection \<open>The log-tail consumer\<close>

lemma handleEventStreamAsync_append:
  "handleEventStreamAsync (pre @ post) =
     (if snd (handleEventStreamAsync pre) = Waiting
      then (fst (handleEventStreamAsync pre) @ fst (handleEventStreamAsync post),
            snd (handleEventStreamAsync post))
      else handleEventStreamAsync pre)"
  by (induction pre rule: handleEventStreamAsync.induct)
     (auto split: prod.splits bool.splits)

text \<open>
  C3. On the frames session start, session update with one line, session update with a
  second line, \<open>nil\<close> (with no pending error), the consumer writes the two lines to the
  log, in that order, and returns. For the session-start frame it prints the fixed notice
  that the session started, on standard output, and nothing of the frame.
\<close>

theorem consumer_renders_updates_and_returns_on_nil:
  "handleEventStreamAsync
     [(SessionStart, e1), (SessionUpdate [Some l1], e2), (SessionUpdate [Some l2], e3),
      (NilFrame, None)]
   = ([Stdout (Println1 ''Logs streaming session started''),
       Logged (Println1 l1), Logged (Println1 l2)], Returned)
   \<and> rendered (fst (handleEventStreamAsync
        [(SessionStart, e1), (SessionUpdate [Some l1], e2), (SessionUpdate [Some l2], e3),
         (NilFrame, None)]))
     = [Println1 l1, Println1 l2]"
  by simp

theorem consumer_renders_updates_and_returns_on_nil_witness:
  "rendered (fst (handleEventStreamAsync
     [(SessionStart, None), (SessionUpdate [Some ''line1''], None),
      (SessionUpdate [Some ''line2''], None), (NilFrame, None)]))
   = [Println1 ''line1'', Println1 ''line2'']
   \<and> snd (handleEventStreamAsync
     [(SessionStart, None), (SessionUpdate [Some ''line1''], None),
      (SessionUpdate [Some ''line2''], None), (NilFrame, None)]) = Returned"
  using consumer_renders_updates_and_returns_on_nil [of None "''line1''" None "''line2''" None]
  by simp

subsection \<open>Sequencing\<close>

lemmas scenario_defs = cloud_def logGroup_def target_def workstation_def named_def

lemmas proc_defs =
  andThen_def orExit_def failed_def say_def requireListed_def Println1_def Println2_def

lemma fst_andThen:
  "fst (andThen m f) = fst m @ (case snd m of Inl h \<Rightarrow> [] | Inr x \<Rightarrow> fst (f x))"
  by (simp add: andThen_def split: prod.splits sum.splits)

lemma snd_andThen:
  "snd (andThen m f) = (case snd m of Inl h \<Rightarrow> Inl h | Inr x \<Rightarrow> snd (f x))"
  by (simp add: andThen_def split: prod.splits sum.splits)

lemma andThen_Inr: "m = (t, Inr x) \<Longrightarrow> andThen m f = (t @ fst (f x), snd (f x))"
  by (simp add: andThen_def split: prod.splits)

lemma andThen_Inl: "m = (t, Inl h) \<Longrightarrow> andThen m f = (t, Inl h)"
  by (simp add: andThen_def)

lemma requireListed_present:
  "contains available item \<Longrightarrow> requireListed available item a b = ([], Inr ())"
  by (simp add: requireListed_def)

subsection \<open>An unrecognized frame with a pending error\<close>

text \<open>
  C4. A frame of an unrecognized type that arrives while the stream reports an error:
  whatever frames follow it have no effect on what the consumer does. When the
  consumer is still receiving at that point (the frames before it were all handled and
  none ended it), it logs the error and ends fatally, having rendered the earlier frames
  only; \<open>TailLogs\<close> then ends with exit status 1, without reaching the end of its sleep
  or closing the stream.
\<close>

theorem unrecognized_frame_with_error_is_fatal:
  "handleEventStreamAsync (pre @ (OtherMember t, Some er) # post)
     = handleEventStreamAsync (pre @ [(OtherMember t, Some er)])
   \<and> (snd (handleEventStreamAsync pre) = Waiting \<longrightarrow>
        handleEventStreamAsync (pre @ (OtherMember t, Some er) # post)
          = (fst (handleEventStreamAsync pre)
               @ [Logged (Println1 (''Error occured during streaming: '' @ er))], Fatal)
        \<and> (getAvailableLogGroups p fuel = (t1, Inr gs) \<and> contains gs (LogGroupName cfg)
              \<and> getARNofLogGroup p cfg = (t2, Inr a)
              \<and> StartLiveTail p [a] filterPattern = Inr (pre @ (OtherMember t, Some er) # post)
            \<longrightarrow> TailLogs p cfg fuel
                  = (t1 @ t2 @ Call (StartLiveTailCall [a] filterPattern)
                       # fst (handleEventStreamAsync pre)
                       @ [Logged (Println1 (''Error occured during streaming: '' @ er))],
                     Inl Exit1)))"
  by (simp add: handleEventStreamAsync_append TailLogs_def andThen_Inr requireListed_present)

theorem unrecognized_frame_with_error_is_fatal_witness:
  "snd (handleEventStreamAsync [(SessionStart, None), (SessionUpdate [Some ''line1''], None)])
     = Waiting
   \<and> snd (TailLogs (cloud [logGroup ''/aws/lambda/orders-stag''] [] brokenSession)
            (target ''orders'' ''stag'') 2) = Inl Exit1
   \<and> rendered (fst (TailLogs (cloud [logGroup ''/aws/lambda/orders-stag''] [] brokenSession)
                      (target ''orders'' ''stag'') 2))
     = [Println1 ''line1'',
        Println1 ''Error occured during streaming: SessionStreamingException'']"
  using unrecognized_frame_with_error_is_fatal
    [of "[(SessionStart, None), (SessionUpdate [Some ''line1''], None)]"
        "''*types.UnknownUnionMember''" "''SessionStreamingException''"
        "[(SessionUpdate [Some ''line2''], None), (NilFrame, None)]"
        "cloud [logGroup ''/aws/lambda/orders-stag''] [] brokenSession" 2
        "[Call (DescribeLogGroupsCall None None), Call (DescribeLogGroupsCall None (Some ''t1''))]"
        "[''/aws/lambda/orders-stag'']" "target ''orders'' ''stag''"
        "[Call (DescribeLogGroupsCall (Some ''/aws/lambda/orders-stag'') None)]"
        "''arn:aws:logs:us-east-1:123456789012:log-group:/aws/lambda/orders-stag''"]
  by (simp add: scenario_defs proc_defs brokenSession_def getAvailableLogGroups_def
        getARNofLogGroup_def TrimSuffix_def numeral_2_eq_2)

subsection \<open>Listings are drained\<close>

lemma appendNames_Some: "appendNames acc (map Some ns) = Some (acc @ ns)"
  by (induction ns arbitrary: acc) auto

lemma contains_iff: "contains xs x = (x \<in> set xs)"
  by (induction xs) auto

lemma listFunctionsFrom_pages:
  "functionPages p marker pages \<Longrightarrow> length pages \<le> fuel \<Longrightarrow>
   listFunctionsFrom p fuel acc marker
     = (map (\<lambda>m. Call (ListFunctionsCall m)) (marker # map snd (butlast pages)),
        Inr (acc @ concat (map fst pages)))"
proof (induction pages arbitrary: marker fuel acc)
  case Nil
  then show ?case by simp
next
  case (Cons pg pages)
  obtain names nxt where pg: "pg = (names, nxt)" by (cases pg)
  obtain fuel' where fuel: "fuel = Suc fuel'" using Cons.prems(2) by (cases fuel) auto
  obtain r where out: "ListFunctions p marker = Inr r"
      "Functions r = map Some names" "NextMarker r = nxt"
    using Cons.prems(1) pg by (auto split: sum.splits)
  show ?case
  proof (cases "pages = []")
    case True
    then have "nxt = None" using Cons.prems(1) pg by simp
    then show ?thesis using True pg fuel out
      by (simp add: andThen_def orExit_def appendNames_Some)
  next
    case False
    then obtain m where m: "nxt = Some m" and rest: "functionPages p nxt pages"
      using Cons.prems(1) pg by auto
    have "length pages \<le> fuel'" using Cons.prems(2) fuel by simp
    from Cons.IH [OF rest this]
    have "listFunctionsFrom p fuel' (acc @ names) nxt
            = (map (\<lambda>m. Call (ListFunctionsCall m)) (nxt # map snd (butlast pages)),
               Inr ((acc @ names) @ concat (map fst pages)))" .
    then show ?thesis using False pg fuel out m
      by (simp add: andThen_def orExit_def appendNames_Some)
  qed
qed

lemma describeLogGroupsFrom_pages:
  "logGroupPages p marker pages \<Longrightarrow> length pages \<le> fuel \<Longrightarrow>
   describeLogGroupsFrom p fuel acc marker
     = (map (\<lambda>m. Call (DescribeLogGroupsCall None m)) (marker # map snd (butlast pages)),
        Inr (acc @ concat (map fst pages)))"
proof (induction pages arbitrary: marker fuel acc)
  case Nil
  then show ?case by simp
next
  case (Cons pg pages)
  obtain names nxt where pg: "pg = (names, nxt)" by (cases pg)
  obtain fuel' where fuel: "fuel = Suc fuel'" using Cons.prems(2) by (cases fuel) auto
  obtain r where out: "DescribeLogGroups p None marker = Inr r"
      "map logGroupName (LogGroups r) = map Some names" "NextToken r = nxt"
    using Cons.prems(1) pg by (auto split: sum.splits)
  show ?case
  proof (cases "pages = []")
    case True
    then have "nxt = None" using Cons.prems(1) pg by simp
    then show ?thesis using True pg fuel out
      by (simp add: andThen_def orExit_def appendNames_Some)
  next
    case False
    then obtain m where m: "nxt = Some m" and rest: "logGroupPages p nxt pages"
      using Cons.prems(1) pg by auto
    have "length pages \<le> fuel'" using Cons.prems(2) fuel by simp
    from Cons.IH [OF rest this]
    have "describeLogGroupsFrom p fuel' (acc @ names) nxt
            = (map (\<lambda>m. Call (DescribeLogGroupsCall None m)) (nxt # map snd (butlast pages)),
               Inr ((acc @ names) @ concat (map fst pages)))" .
    then show ?thesis using False pg fuel out m
      by (simp add: andThen_def orExit_def appendNames_Some)
  qed
qed


text \<open>
  C2. When the platform answers the listing of the functions, or of the log groups, in
  N pages, the last being the one without a continuation token, the listing operation
  (given fuel for N requests) sends one request per page, each with the token of the
  page before, and returns the names of all pages, in order. So the membership test
  finds a name exactly when it is on one of the pages.
\<close>

theorem listings_drain_every_page:
  "(functionPages p None pages \<and> length pages \<le> fuel \<longrightarrow>
      GetAvailableFunctions p fuel
        = (map (\<lambda>m. Call (ListFunctionsCall m)) (None # map snd (butlast pages)),
           Inr (concat (map fst pages)))
      \<and> (\<forall>n. contains (concat (map fst pages)) n = (\<exists>pg \<in> set pages. n \<in> set (fst pg))))
   \<and> (logGroupPages p None pages' \<and> length pages' \<le> fuel' \<longrightarrow>
      getAvailableLogGroups p fuel'
        = (map (\<lambda>t. Call (DescribeLogGroupsCall None t)) (None # map snd (butlast pages')),
           Inr (concat (map fst pages')))
      \<and> (\<forall>n. contains (concat (map fst pages')) n = (\<exists>pg \<in> set pages'. n \<in> set (fst pg))))"
  using listFunctionsFrom_pages [of p None pages fuel "[]"]
        describeLogGroupsFrom_pages [of p None pages' fuel' "[]"]
  by (auto simp add: GetAvailableFunctions_def getAvailableLogGroups_def contains_iff)

theorem listings_drain_every_page_witness:
  "functionPages (cloud [logGroup ''/aws/lambda/orders-prod''] [logGroup ''/aws/lambda/orders-stag''] [])
     None [([''orders-stag''], Some ''m1''), ([''orders-prod'', ''svc-prod''], None)]
   \<and> logGroupPages (cloud [logGroup ''/aws/lambda/orders-prod''] [logGroup ''/aws/lambda/orders-stag''] [])
     None [([''/aws/lambda/orders-prod''], Some ''t1''), ([''/aws/lambda/orders-stag''], None)]
   \<and> snd (GetAvailableFunctions
        (cloud [logGroup ''/aws/lambda/orders-prod''] [logGroup ''/aws/lambda/orders-stag''] []) 2)
     = Inr [''orders-stag'', ''orders-prod'', ''svc-prod'']
   \<and> snd (getAvailableLogGroups
        (cloud [logGroup ''/aws/lambda/orders-prod''] [logGroup ''/aws/lambda/orders-stag''] []) 2)
     = Inr [''/aws/lambda/orders-prod'', ''/aws/lambda/orders-stag'']
   \<and> contains [''orders-stag'', ''orders-prod'', ''svc-prod''] ''svc-prod''"
  using listings_drain_every_page
    [of "cloud [logGroup ''/aws/lambda/orders-prod''] [logGroup ''/aws/lambda/orders-stag''] []"
        "[([''orders-stag''], Some ''m1''), ([''orders-prod'', ''svc-prod''], None)]" 2
        "[([''/aws/lambda/orders-prod''], Some ''t1''), ([''/aws/lambda/orders-stag''], None)]" 2]
  by (simp add: scenario_defs)

subsection \<open>The name of the archive\<close>

lemma snd_andThen_Inr:
  "snd (andThen m f) = Inr y \<longleftrightarrow> (\<exists>x. snd m = Inr x \<and> snd (f x) = Inr y)"
  by (auto simp: andThen_def split: prod.splits sum.splits)

lemma snd_orExit_Inr: "snd (orExit ev what r) = Inr x \<longleftrightarrow> r = Inr x"
  by (auto simp: orExit_def split: sum.splits)

lemma getCurrentGitCommit_Inr:
  assumes "snd (getCurrentGitCommit m k) = Inr c"
  shows "\<exists>revision status. perform m (GitRevParse k) = Inr revision
        \<and> perform m (GitStatus k) = Inr status
        \<and> 7 \<le> length (TrimSpace revision)
        \<and> c = take 7 (TrimSpace revision) @ (if status = [] then [] else ''-dirty'')"
proof -
  from assms obtain revision status where
    r: "perform m (GitRevParse k) = Inr revision" and s: "perform m (GitStatus k) = Inr status"
    and c: "snd (if length (TrimSpace revision) < 7 then ([] :: event list, Inl Panic)
          else ([], Inr (take 7 (TrimSpace revision) @ (if 0 < length status then ''-dirty'' else []))))
          = (Inr c :: halt + string)"
    unfolding getCurrentGitCommit_def snd_andThen_Inr snd_orExit_Inr
    by (elim exE conjE) (rule that, assumption+)
  from c have l: "7 \<le> length (TrimSpace revision)"
    by (cases "length (TrimSpace revision) < 7") simp_all
  with c have "c = take 7 (TrimSpace revision) @ (if status = [] then [] else ''-dirty'')"
    by (cases "status = []") simp_all
  with r s l show ?thesis by blast
qed

lemma Build_Inr:
  "snd (Build p m cfg) = Inr cfg' \<Longrightarrow>
     \<exists>commit. snd (getCurrentGitCommit m 1) = Inr commit
       \<and> cfg' = cfg\<lparr>SourceCodeFilename := LambdaName cfg @ ''-'' @ commit @ ''.zip''\<rparr>"
  unfolding Build_def snd_andThen_Inr by (elim exE conjE) auto

text \<open>
  C5. The name of the archive is the function name, a hyphen, the first seven bytes of
  the trimmed output of \<open>git rev-parse HEAD\<close>, then \<open>-dirty\<close> exactly when
  \<open>git status --porcelain\<close> printed something, then \<open>.zip\<close>. Revision identifiers have
  at least seven characters (git prints 40 or 64); on a shorter output the code panics.
  The first part is what \<open>getCurrentGitCommit\<close> returns, the second that a \<open>Build\<close>
  which returns has stored that name, made from the outputs of the second invocation.
\<close>

theorem artifact_filename:
  "(perform m (GitRevParse k) = Inr revision \<and> perform m (GitStatus k) = Inr status
      \<and> 7 \<le> length (TrimSpace revision) \<longrightarrow>
    getCurrentGitCommit m k
      = ([Local (GitRevParse k), Local (GitStatus k)],
         Inr (take 7 (TrimSpace revision) @ (if status = [] then [] else ''-dirty''))))
   \<and> (snd (Build p m cfg) = Inr cfg' \<longrightarrow>
      (\<exists>revision status. perform m (GitRevParse 1) = Inr revision \<and> perform m (GitStatus 1) = Inr status
         \<and> 7 \<le> length (TrimSpace revision)
         \<and> SourceCodeFilename cfg'
             = LambdaName cfg @ ''-'' @ take 7 (TrimSpace revision)
               @ (if status = [] then [] else ''-dirty'') @ ''.zip''))"
proof (intro conjI impI)
  assume "perform m (GitRevParse k) = Inr revision \<and> perform m (GitStatus k) = Inr status
      \<and> 7 \<le> length (TrimSpace revision)"
  then show "getCurrentGitCommit m k
      = ([Local (GitRevParse k), Local (GitStatus k)],
         Inr (take 7 (TrimSpace revision) @ (if status = [] then [] else ''-dirty'')))"
    by (simp add: getCurrentGitCommit_def andThen_def orExit_def)
next
  assume "snd (Build p m cfg) = Inr cfg'"
  from Build_Inr [OF this] obtain commit where
    c: "snd (getCurrentGitCommit m 1) = Inr commit"
    and cfg': "cfg' = cfg\<lparr>SourceCodeFilename := LambdaName cfg @ ''-'' @ commit @ ''.zip''\<rparr>"
    by blast
  from c obtain revision status where
    "perform m (GitRevParse 1) = Inr revision" "perform m (GitStatus 1) = Inr status"
    "7 \<le> length (TrimSpace revision)"
    "commit = take 7 (TrimSpace revision) @ (if status = [] then [] else ''-dirty'')"
    using getCurrentGitCommit_Inr by blast
  then show "\<exists>revision status. perform m (GitRevParse 1) = Inr revision \<and> perform m (GitStatus 1) = Inr status
         \<and> 7 \<le> length (TrimSpace revision)
         \<and> SourceCodeFilename cfg'
             = LambdaName cfg @ ''-'' @ take 7 (TrimSpace revision)
               @ (if status = [] then [] else ''-dirty'') @ ''.zip''"
    using cfg' by auto
qed


lemmas build_defs = Build_def getCurrentGitCommit_def determineFunctionArch_def TrimSpace_def asciiSpace_def

theorem artifact_filename_witness:
  "perform (workstation (''abc1234'' @ [CHR 0x0A]) []) (GitRevParse 1) = Inr (''abc1234'' @ [CHR 0x0A])
   \<and> 7 \<le> length (TrimSpace (''abc1234'' @ [CHR 0x0A]))
   \<and> SourceCodeFilename (target ''svc'' ''prod''\<lparr>SourceCodeFilename := ''svc-prod-abc1234.zip''\<rparr>) = ''svc-prod-abc1234.zip''
   \<and> snd (Build (cloud [] [] []) (workstation (''abc1234'' @ [CHR 0x0A]) []) (target ''svc'' ''prod''))
     = Inr (target ''svc'' ''prod''\<lparr>SourceCodeFilename := ''svc-prod-abc1234.zip''\<rparr>)
   \<and> snd (Build (cloud [] [] []) (workstation (''abc1234'' @ [CHR 0x0A]) ('' M main.go'' @ [CHR 0x0A]))
          (target ''svc'' ''prod''))
     = Inr (target ''svc'' ''prod''\<lparr>SourceCodeFilename := ''svc-prod-abc1234-dirty.zip''\<rparr>)"
  using artifact_filename [of "workstation (''abc1234'' @ [CHR 0x0A]) []" 1 "''abc1234'' @ [CHR 0x0A]" "[]"
               "cloud [] [] []" "target ''svc'' ''prod''"
               "target ''svc'' ''prod''\<lparr>SourceCodeFilename := ''svc-prod-abc1234.zip''\<rparr>"]
  by (simp add: build_defs proc_defs scenario_defs)

subsection \<open>Publisher, waiter and promoter\<close>

lemma calls_append: "calls (xs @ ys) = calls xs @ calls ys"
  by (induction xs rule: calls.induct) auto

lemma orExit_fst: "calls (fst (orExit (Call c) what r)) = [c]"
  by (simp add: orExit_def split: sum.splits)

lemma orExit_Local_fst: "calls (fst (orExit (Local l) what r)) = []"
  by (simp add: orExit_def split: sum.splits)

lemma snd_orExit: "snd (orExit ev what r) = (case r of Inl e \<Rightarrow> Inl Exit1 | Inr x \<Rightarrow> Inr x)"
  by (simp add: orExit_def split: sum.splits)

lemma Deploy_calls:
  "calls (fst (Deploy p m cfg)) =
     (if isl (perform m (OpenFile (SourceCodeFilename cfg))) then []
      else UploadCall (BuildsBucket cfg) (SourceCodeFilename cfg) (SourceCodeFilename cfg) ''AES256''
        # (if Upload p (BuildsBucket cfg) (SourceCodeFilename cfg) (SourceCodeFilename cfg) ''AES256'' \<noteq> None
           then []
           else UpdateFunctionCodeCall (LambdaName cfg) (BuildsBucket cfg) (SourceCodeFilename cfg)
        # (if UpdateFunctionCode p (LambdaName cfg) (BuildsBucket cfg) (SourceCodeFilename cfg) \<noteq> None
           then []
           else WaitFunctionUpdatedCall (LambdaName cfg) (5 * Minute)
        # (if WaitFunctionUpdated p (LambdaName cfg) (5 * Minute) \<noteq> None then []
           else PublishVersionCall (LambdaName cfg)
        # (case PublishVersion p (LambdaName cfg) of
             Inl e \<Rightarrow> []
           | Inr v \<Rightarrow> [UpdateAliasCall (LambdaName cfg) ''canary'' v])))))"
  by (simp add: Deploy_def uploadToS3_def fst_andThen snd_andThen calls_append orExit_fst
      orExit_Local_fst snd_orExit say_def failed_def split: sum.splits option.splits)

lemma Deploy_outcome:
  "snd (Deploy p m cfg) =
     (if isl (perform m (OpenFile (SourceCodeFilename cfg)))
         \<or> Upload p (BuildsBucket cfg) (SourceCodeFilename cfg) (SourceCodeFilename cfg) ''AES256'' \<noteq> None
         \<or> UpdateFunctionCode p (LambdaName cfg) (BuildsBucket cfg) (SourceCodeFilename cfg) \<noteq> None
         \<or> WaitFunctionUpdated p (LambdaName cfg) (5 * Minute) \<noteq> None
      then Inl Exit1
      else (case PublishVersion p (LambdaName cfg) of
              Inl e \<Rightarrow> Inl Exit1
            | Inr v \<Rightarrow>
                if UpdateAlias p (LambdaName cfg) ''canary'' v \<noteq> None then Inl Exit1
                else (case v of None \<Rightarrow> Inl Panic | Some x \<Rightarrow> Inr ())))"
  by (simp add: Deploy_def uploadToS3_def snd_andThen snd_orExit say_def failed_def
      split: sum.splits option.splits)


text \<open>
  C7. \<open>Deploy\<close> begins with the upload of the archive file to the builds bucket, under
  the archive's file name as key and with server-side encryption \<open>AES256\<close>; the request
  to update the function code follows only when the upload succeeded, and names the same
  bucket and key. When opening the file, the upload or the update fails, the run ends
  with exit status 1 having made at most these two calls; no run of \<open>Deploy\<close> ever asks
  the blob store to delete an object.
\<close>

theorem publisher_uploads_then_updates_code:
  "take 2 (calls (fst (Deploy p m cfg))) =
     (if isl (perform m (OpenFile (SourceCodeFilename cfg))) then []
      else if Upload p (BuildsBucket cfg) (SourceCodeFilename cfg) (SourceCodeFilename cfg) ''AES256'' \<noteq> None
      then [UploadCall (BuildsBucket cfg) (SourceCodeFilename cfg) (SourceCodeFilename cfg) ''AES256'']
      else [UploadCall (BuildsBucket cfg) (SourceCodeFilename cfg) (SourceCodeFilename cfg) ''AES256'',
            UpdateFunctionCodeCall (LambdaName cfg) (BuildsBucket cfg) (SourceCodeFilename cfg)])
   \<and> (isl (perform m (OpenFile (SourceCodeFilename cfg)))
        \<or> Upload p (BuildsBucket cfg) (SourceCodeFilename cfg) (SourceCodeFilename cfg) ''AES256'' \<noteq> None
        \<or> UpdateFunctionCode p (LambdaName cfg) (BuildsBucket cfg) (SourceCodeFilename cfg) \<noteq> None
      \<longrightarrow> snd (Deploy p m cfg) = Inl Exit1 \<and> length (calls (fst (Deploy p m cfg))) \<le> 2)
   \<and> DeleteObjectCall b k \<notin> set (calls (fst (Deploy p m cfg)))"
  by (auto simp add: Deploy_calls Deploy_outcome split: sum.splits)

theorem publisher_uploads_then_updates_code_witness:
  "UpdateFunctionCode ((cloud [] [] [])\<lparr>UpdateFunctionCode := \<lambda>n b k. Some ''ResourceConflictException''\<rparr>)
      (LambdaName released) (BuildsBucket released) (SourceCodeFilename released) \<noteq> None
   \<and> snd (Deploy ((cloud [] [] [])\<lparr>UpdateFunctionCode := \<lambda>n b k. Some ''ResourceConflictException''\<rparr>)
            (workstation [] []) released) = Inl Exit1
   \<and> take 2 (calls (fst (Deploy ((cloud [] [] [])\<lparr>UpdateFunctionCode := \<lambda>n b k. Some ''ResourceConflictException''\<rparr>)
            (workstation [] []) released)))
     = [UploadCall ''e4f-builds'' ''orders-stag-abc1234.zip'' ''orders-stag-abc1234.zip'' ''AES256'',
        UpdateFunctionCodeCall ''orders-stag'' ''e4f-builds'' ''orders-stag-abc1234.zip'']"
  using publisher_uploads_then_updates_code
    [of "(cloud [] [] [])\<lparr>UpdateFunctionCode := \<lambda>n b k. Some ''ResourceConflictException''\<rparr>"
        "workstation [] []" released]
  by (simp add: scenario_defs released_def)

text \<open>
  C6. The promoter's calls in a run of \<open>Deploy\<close>: none unless upload, code update and
  wait all succeeded; then \<open>PublishVersion\<close>, followed, only when it succeeded, by
  \<open>UpdateAlias\<close> of the alias \<open>canary\<close> to the version that \<open>PublishVersion\<close> returned.
  An error of either call ends the run with exit status 1.
\<close>

theorem promoter_publishes_then_repoints_canary:
  "filter promoterCall (calls (fst (Deploy p m cfg))) =
     (if \<not> isl (perform m (OpenFile (SourceCodeFilename cfg)))
         \<and> Upload p (BuildsBucket cfg) (SourceCodeFilename cfg) (SourceCodeFilename cfg) ''AES256'' = None
         \<and> UpdateFunctionCode p (LambdaName cfg) (BuildsBucket cfg) (SourceCodeFilename cfg) = None
         \<and> WaitFunctionUpdated p (LambdaName cfg) (5 * Minute) = None
      then (case PublishVersion p (LambdaName cfg) of
              Inl e \<Rightarrow> [PublishVersionCall (LambdaName cfg)]
            | Inr v \<Rightarrow> [PublishVersionCall (LambdaName cfg),
                        UpdateAliasCall (LambdaName cfg) ''canary'' v])
      else [])
   \<and> (\<not> isl (perform m (OpenFile (SourceCodeFilename cfg)))
         \<and> Upload p (BuildsBucket cfg) (SourceCodeFilename cfg) (SourceCodeFilename cfg) ''AES256'' = None
         \<and> UpdateFunctionCode p (LambdaName cfg) (BuildsBucket cfg) (SourceCodeFilename cfg) = None
         \<and> WaitFunctionUpdated p (LambdaName cfg) (5 * Minute) = None
      \<longrightarrow> snd (Deploy p m cfg) =
            (case PublishVersion p (LambdaName cfg) of
               Inl e \<Rightarrow> Inl Exit1
             | Inr v \<Rightarrow>
                 if UpdateAlias p (LambdaName cfg) ''canary'' v \<noteq> None then Inl Exit1
                 else (case v of None \<Rightarrow> Inl Panic | Some x \<Rightarrow> Inr ())))"
  by (simp add: Deploy_calls Deploy_outcome split: sum.splits)

theorem promoter_publishes_then_repoints_canary_witness:
  "\<not> isl (perform (workstation [] []) (OpenFile (SourceCodeFilename released)))
   \<and> filter promoterCall (calls (fst (Deploy (cloud [] [] []) (workstation [] []) released)))
     = [PublishVersionCall ''orders-stag'', UpdateAliasCall ''orders-stag'' ''canary'' (Some ''7'')]
   \<and> snd (Deploy (cloud [] [] []) (workstation [] []) released) = Inr ()
   \<and> filter promoterCall (calls (fst (Deploy
        ((cloud [] [] [])\<lparr>PublishVersion := \<lambda>n. Inl ''TooManyRequestsException''\<rparr>)
        (workstation [] []) released)))
     = [PublishVersionCall ''orders-stag'']
   \<and> snd (Deploy ((cloud [] [] [])\<lparr>PublishVersion := \<lambda>n. Inl ''TooManyRequestsException''\<rparr>)
        (workstation [] []) released) = Inl Exit1"
  using promoter_publishes_then_repoints_canary [of "cloud [] [] []" "workstation [] []" released]
    promoter_publishes_then_repoints_canary
      [of "(cloud [] [] [])\<lparr>PublishVersion := \<lambda>n. Inl ''TooManyRequestsException''\<rparr>"
          "workstation [] []" released]
  by (simp add: scenario_defs released_def)

subsection \<open>A missing resource\<close>

lemma Join_sublist: "n \<in> set names \<Longrightarrow> sublist n (Join names sep)"
proof (induction names sep rule: Join.induct)
  case (1 sep)
  then show ?case by simp
next
  case (2 a sep)
  then show ?case by simp
next
  case (3 a b bs sep)
  show ?case
  proof (cases "n = a")
    case True
    then show ?thesis by (simp add: sublist_def) (metis append_Nil)
  next
    case False
    with 3 have "sublist n (Join (b # bs) sep)" by simp
    then obtain ps ss where "Join (b # bs) sep = ps @ n @ ss" by (auto simp: sublist_def)
    then have "Join (a # b # bs) sep = (a @ sep @ ps) @ n @ ss" by simp
    then show ?thesis unfolding sublist_def by blast
  qed
qed

lemma listing_sublist:
  "n \<in> set names \<Longrightarrow> sublist n (heading @ Join names sep @ trailer)"
proof -
  assume "n \<in> set names"
  then obtain ps ss where "Join names sep = ps @ n @ ss"
    using Join_sublist by (fastforce simp: sublist_def)
  then have "heading @ Join names sep @ trailer = (heading @ ps) @ n @ (ss @ trailer)" by simp
  then show ?thesis unfolding sublist_def by blast
qed

lemma requireListed_absent:
  "\<not> contains available item \<Longrightarrow>
   requireListed available item missing listing
     = ([Stdout missing, Stdout (listing @ Join available '', '' @ [CHR 0x0A])], Inl Exit1)"
  by (simp add: requireListed_def)

lemma InitAWSClient_ok: "perform m LoadDefaultConfig = Inr x \<Longrightarrow> InitAWSClient m = ([Local LoadDefaultConfig], Inr ())"
  by (simp add: InitAWSClient_def andThen_def orExit_def)


lemma runDeploy_function_absent:
  assumes "perform m LoadDefaultConfig = Inr x" "GetAvailableFunctions p fuel = (tf, Inr fs)"
    "\<not> contains fs (LambdaName cfg)"
  shows "runDeploy p m cfg tail fuel
      = (Local LoadDefaultConfig # tf
           @ [Stdout (''Lambda function '' @ [CHR 0x27] @ LambdaName cfg @ [CHR 0x27]
                      @ '' does not exist'' @ [CHR 0x0A]),
              Stdout (''Available functions are: '' @ Join fs '', '' @ [CHR 0x0A])],
         Inl Exit1)"
  unfolding runDeploy_def
  by (simp only: InitAWSClient_ok [OF assms(1)] andThen_Inr [OF refl] andThen_Inr [OF assms(2)]
        andThen_Inl [OF requireListed_absent [OF assms(3)]] fst_conv snd_conv append_Cons append_Nil)

lemma runDeploy_bucket_absent:
  assumes "perform m LoadDefaultConfig = Inr x" "GetAvailableFunctions p fuel = (tf, Inr fs)"
    "contains fs (LambdaName cfg)" "GetAvailableBuckets p = (tb, Inr bs)"
    "\<not> contains bs (BuildsBucket cfg)"
  shows "runDeploy p m cfg tail fuel
      = (Local LoadDefaultConfig # tf @ tb
           @ [Stdout (''S3 bucket '' @ BuildsBucket cfg @ '' does not exist'' @ [CHR 0x0A]),
              Stdout (''Available buckets are: '' @ Join bs '', '' @ [CHR 0x0A])],
         Inl Exit1)"
  unfolding runDeploy_def
  by (simp only: InitAWSClient_ok [OF assms(1)] andThen_Inr [OF refl] andThen_Inr [OF assms(2)]
        andThen_Inr [OF requireListed_present [OF assms(3)]] andThen_Inr [OF assms(4)]
        andThen_Inl [OF requireListed_absent [OF assms(5)]] fst_conv snd_conv append_Cons append_Nil
        append_assoc)

lemma TailLogs_group_absent:
  assumes "getAvailableLogGroups p fuel = (tg, Inr gs)" "\<not> contains gs (LogGroupName cfg)"
  shows "TailLogs p cfg fuel
      = (tg @ [Stdout (''Log group '' @ LogGroupName cfg @ '' does not exist'' @ [CHR 0x0A]),
               Stdout (''Available log groups are: '' @ Join gs '', '' @ [CHR 0x0A])],
         Inl Exit1)"
  unfolding TailLogs_def
  by (simp only: andThen_Inr [OF assms(1)] andThen_Inl [OF requireListed_absent [OF assms(2)]]
        fst_conv snd_conv)


text \<open>
  C8. When the listing of the functions succeeded and the configured function is not in
  it, \<open>runDeploy\<close> prints that the function does not exist, then the line
  \<open>Available functions are:\<close> with the listed names joined by commas, and exits with
  status 1. It does the same for the builds bucket once the function was found, and
  \<open>TailLogs\<close> does it for the log group. Every name of the listing occurs in the line.
\<close>

theorem missing_resource_message_lists_available:
  "(perform m LoadDefaultConfig = Inr x \<and> GetAvailableFunctions p fuel = (tf, Inr fs)
      \<and> \<not> contains fs (LambdaName cfg) \<longrightarrow>
    runDeploy p m cfg tail fuel
      = (Local LoadDefaultConfig # tf
           @ [Stdout (''Lambda function '' @ [CHR 0x27] @ LambdaName cfg @ [CHR 0x27]
                      @ '' does not exist'' @ [CHR 0x0A]),
              Stdout (''Available functions are: '' @ Join fs '', '' @ [CHR 0x0A])],
         Inl Exit1)
    \<and> (\<forall>n \<in> set fs. sublist n (''Available functions are: '' @ Join fs '', '' @ [CHR 0x0A])))
   \<and> (perform m LoadDefaultConfig = Inr x \<and> GetAvailableFunctions p fuel = (tf, Inr fs)
      \<and> contains fs (LambdaName cfg) \<and> GetAvailableBuckets p = (tb, Inr bs)
      \<and> \<not> contains bs (BuildsBucket cfg) \<longrightarrow>
    runDeploy p m cfg tail fuel
      = (Local LoadDefaultConfig # tf @ tb
           @ [Stdout (''S3 bucket '' @ BuildsBucket cfg @ '' does not exist'' @ [CHR 0x0A]),
              Stdout (''Available buckets are: '' @ Join bs '', '' @ [CHR 0x0A])],
         Inl Exit1)
    \<and> (\<forall>n \<in> set bs. sublist n (''Available buckets are: '' @ Join bs '', '' @ [CHR 0x0A])))
   \<and> (getAvailableLogGroups p fuel = (tg, Inr gs) \<and> \<not> contains gs (LogGroupName cfg) \<longrightarrow>
    TailLogs p cfg fuel
      = (tg @ [Stdout (''Log group '' @ LogGroupName cfg @ '' does not exist'' @ [CHR 0x0A]),
               Stdout (''Available log groups are: '' @ Join gs '', '' @ [CHR 0x0A])],
         Inl Exit1)
    \<and> (\<forall>n \<in> set gs. sublist n (''Available log groups are: '' @ Join gs '', '' @ [CHR 0x0A])))"
proof (intro conjI impI ballI)
  assume "perform m LoadDefaultConfig = Inr x \<and> GetAvailableFunctions p fuel = (tf, Inr fs)
      \<and> \<not> contains fs (LambdaName cfg)"
  then show "runDeploy p m cfg tail fuel
      = (Local LoadDefaultConfig # tf
           @ [Stdout (''Lambda function '' @ [CHR 0x27] @ LambdaName cfg @ [CHR 0x27]
                      @ '' does not exist'' @ [CHR 0x0A]),
              Stdout (''Available functions are: '' @ Join fs '', '' @ [CHR 0x0A])],
         Inl Exit1)"
    using runDeploy_function_absent by blast
next
  assume "perform m LoadDefaultConfig = Inr x \<and> GetAvailableFunctions p fuel = (tf, Inr fs)
      \<and> contains fs (LambdaName cfg) \<and> GetAvailableBuckets p = (tb, Inr bs)
      \<and> \<not> contains bs (BuildsBucket cfg)"
  then show "runDeploy p m cfg tail fuel
      = (Local LoadDefaultConfig # tf @ tb
           @ [Stdout (''S3 bucket '' @ BuildsBucket cfg @ '' does not exist'' @ [CHR 0x0A]),
              Stdout (''Available buckets are: '' @ Join bs '', '' @ [CHR 0x0A])],
         Inl Exit1)"
    using runDeploy_bucket_absent by blast
next
  assume "getAvailableLogGroups p fuel = (tg, Inr gs) \<and> \<not> contains gs (LogGroupName cfg)"
  then show "TailLogs p cfg fuel
      = (tg @ [Stdout (''Log group '' @ LogGroupName cfg @ '' does not exist'' @ [CHR 0x0A]),
               Stdout (''Available log groups are: '' @ Join gs '', '' @ [CHR 0x0A])],
         Inl Exit1)"
    using TailLogs_group_absent by blast
qed (rule listing_sublist, assumption)+

theorem missing_resource_message_lists_available_witness:
  "perform (workstation [] []) LoadDefaultConfig = Inr []
   \<and> GetAvailableFunctions abcAccount 1 = ([Call (ListFunctionsCall None)], Inr [''a'', ''b'', ''c''])
   \<and> \<not> contains [''a'', ''b'', ''c''] (LambdaName (target ''orders'' ''stag''))
   \<and> snd (runDeploy abcAccount (workstation [] []) (target ''orders'' ''stag'') False 1) = Inl Exit1
   \<and> printed (fst (runDeploy abcAccount (workstation [] []) (target ''orders'' ''stag'') False 1))
     = [''Lambda function '' @ [CHR 0x27] @ ''orders-stag'' @ [CHR 0x27] @ '' does not exist'' @ [CHR 0x0A],
        ''Available functions are: a, b, c'' @ [CHR 0x0A]]
   \<and> sublist ''a'' (''Available functions are: a, b, c'' @ [CHR 0x0A])
   \<and> sublist ''b'' (''Available functions are: a, b, c'' @ [CHR 0x0A])
   \<and> sublist ''c'' (''Available functions are: a, b, c'' @ [CHR 0x0A])"
  using missing_resource_message_lists_available [of "workstation [] []" "[]" abcAccount 1 "[Call (ListFunctionsCall None)]"
               "[''a'', ''b'', ''c'']" "target ''orders'' ''stag''" False]
  by (simp add: abcAccount_def scenario_defs GetAvailableFunctions_def proc_defs)

subsection \<open>The identifier of the log group\<close>

lemma TrimSuffix_append: "TrimSuffix (x @ s) s = x"
  by (simp add: TrimSuffix_def)

lemma TrimSuffix_other: "\<not> suffix s x \<Longrightarrow> TrimSuffix x s = x"
  by (auto simp: TrimSuffix_def suffix_def) (metis append_take_drop_id)


text \<open>
  C10. \<open>getARNofLogGroup\<close> sends one request, the query by the prefix \<open>LogGroupName\<close>
  without a token, whatever the response says about further pages. It exits with
  status 1 when the response has no group; otherwise it returns the ARN of the first
  group of the response with a final \<open>:*\<close> removed (an ARN without that ending is
  returned as it is), and the name of that group is not compared with the configured
  name. In the account \<open>twoGroups\<close> the configured group \<open>/aws/lambda/orders-stag\<close>
  exists, and the session is opened on \<open>/aws/lambda/orders-stag-authorizer\<close>.
\<close>

theorem log_group_identifier_is_first_prefix_match:
  "calls (fst (getARNofLogGroup p cfg)) = [DescribeLogGroupsCall (Some (LogGroupName cfg)) None]
   \<and> (DescribeLogGroups p (Some (LogGroupName cfg)) None = Inr r \<and> LogGroups r = []
        \<longrightarrow> snd (getARNofLogGroup p cfg) = Inl Exit1)
   \<and> (DescribeLogGroups p (Some (LogGroupName cfg)) None = Inr r \<and> LogGroups r = g # gs
        \<and> arn g = Some a
        \<longrightarrow> snd (getARNofLogGroup p cfg) = Inr (TrimSuffix a '':*''))
   \<and> TrimSuffix (x @ '':*'') '':*'' = x
   \<and> (\<not> suffix '':*'' a \<longrightarrow> TrimSuffix a '':*'' = a)
   \<and> snd (getAvailableLogGroups twoGroups 2)
       = Inr [''/aws/lambda/orders-stag-authorizer'', ''/aws/lambda/orders-stag'']
   \<and> snd (getARNofLogGroup twoGroups (target ''orders'' ''stag''))
       = Inr ''arn:aws:logs:us-east-1:123456789012:log-group:/aws/lambda/orders-stag-authorizer''
   \<and> calls (fst (TailLogs twoGroups (target ''orders'' ''stag'') 2))
       = [DescribeLogGroupsCall None None, DescribeLogGroupsCall None (Some ''t1''),
          DescribeLogGroupsCall (Some ''/aws/lambda/orders-stag'') None,
          StartLiveTailCall
            [''arn:aws:logs:us-east-1:123456789012:log-group:/aws/lambda/orders-stag-authorizer'']
            filterPattern,
          StreamCloseCall]"
proof (intro conjI impI)
  show "calls (fst (getARNofLogGroup p cfg)) = [DescribeLogGroupsCall (Some (LogGroupName cfg)) None]"
    by (simp add: getARNofLogGroup_def andThen_def orExit_def split: sum.splits list.splits option.splits)
  show "snd (getARNofLogGroup p cfg) = Inl Exit1"
    if "DescribeLogGroups p (Some (LogGroupName cfg)) None = Inr r \<and> LogGroups r = []"
    using that by (simp add: getARNofLogGroup_def andThen_def orExit_def)
  show "snd (getARNofLogGroup p cfg) = Inr (TrimSuffix a '':*'')"
    if "DescribeLogGroups p (Some (LogGroupName cfg)) None = Inr r \<and> LogGroups r = g # gs \<and> arn g = Some a"
    using that by (simp add: getARNofLogGroup_def andThen_def orExit_def)
  show "TrimSuffix (x @ '':*'') '':*'' = x" by (rule TrimSuffix_append)
  show "TrimSuffix a '':*'' = a" if "\<not> suffix '':*'' a" using that by (rule TrimSuffix_other)
  show "snd (getAvailableLogGroups twoGroups 2)
       = Inr [''/aws/lambda/orders-stag-authorizer'', ''/aws/lambda/orders-stag'']"
    by (simp add: twoGroups_def scenario_defs proc_defs getAvailableLogGroups_def numeral_2_eq_2)
  show "snd (getARNofLogGroup twoGroups (target ''orders'' ''stag''))
       = Inr ''arn:aws:logs:us-east-1:123456789012:log-group:/aws/lambda/orders-stag-authorizer''"
    by (simp add: twoGroups_def scenario_defs proc_defs getARNofLogGroup_def TrimSuffix_def)
  show "calls (fst (TailLogs twoGroups (target ''orders'' ''stag'') 2))
       = [DescribeLogGroupsCall None None, DescribeLogGroupsCall None (Some ''t1''),
          DescribeLogGroupsCall (Some ''/aws/lambda/orders-stag'') None,
          StartLiveTailCall
            [''arn:aws:logs:us-east-1:123456789012:log-group:/aws/lambda/orders-stag-authorizer'']
            filterPattern,
          StreamCloseCall]"
    by (simp add: twoGroups_def scenario_defs proc_defs getARNofLogGroup_def TrimSuffix_def
          TailLogs_def getAvailableLogGroups_def numeral_2_eq_2)
qed


theorem log_group_identifier_is_first_prefix_match_witness:
  "DescribeLogGroups twoGroups (Some (LogGroupName (target ''orders'' ''stag''))) None
     = Inr \<lparr>LogGroups = [logGroup ''/aws/lambda/orders-stag-authorizer'',
                          logGroup ''/aws/lambda/orders-stag''], NextToken = None\<rparr>
   \<and> arn (logGroup ''/aws/lambda/orders-stag-authorizer'')
     = Some ''arn:aws:logs:us-east-1:123456789012:log-group:/aws/lambda/orders-stag-authorizer:*''
   \<and> snd (getARNofLogGroup twoGroups (target ''orders'' ''stag''))
     = Inr (TrimSuffix
         ''arn:aws:logs:us-east-1:123456789012:log-group:/aws/lambda/orders-stag-authorizer:*''
         '':*'')
   \<and> \<not> suffix '':*'' ''arn:aws:logs''
   \<and> TrimSuffix ''arn:aws:logs'' '':*'' = ''arn:aws:logs''"
  using log_group_identifier_is_first_prefix_match
    [of twoGroups "target ''orders'' ''stag''"
        "\<lparr>LogGroups = [logGroup ''/aws/lambda/orders-stag-authorizer'',
                        logGroup ''/aws/lambda/orders-stag''], NextToken = None\<rparr>"
        "logGroup ''/aws/lambda/orders-stag-authorizer''"
        "[logGroup ''/aws/lambda/orders-stag'']"
        "''arn:aws:logs:us-east-1:123456789012:log-group:/aws/lambda/orders-stag-authorizer:*''"
        "[]"]
    log_group_identifier_is_first_prefix_match [of twoGroups "target ''orders'' ''stag''" _ _ _ "''arn:aws:logs''" "[]"]
  by (simp add: twoGroups_def scenario_defs suffix_to_prefix)

subsection \<open>Resolution before mutation\<close>

lemma set_calls: "set (calls tr) = {c. Call c \<in> set tr}"
  by (induction tr rule: calls.induct) auto

lemma prefix_before_first:
  assumes "A @ B = pre @ e # post" "e \<notin> set A"
  shows "prefix A pre"
proof -
  from assms(1) obtain us where
    "(A = pre @ us \<and> us @ B = e # post) \<or> (A @ us = pre \<and> B = us @ e # post)"
    unfolding append_eq_append_conv2 by blast
  then show ?thesis
  proof
    assume a: "A = pre @ us \<and> us @ B = e # post"
    show ?thesis
    proof (cases us)
      case Nil
      with a show ?thesis by simp
    next
      case (Cons u us')
      with a have "u = e" by simp
      with a Cons have "e \<in> set A" by simp
      with assms(2) show ?thesis by contradiction
    qed
  next
    assume "A @ us = pre \<and> B = us @ e # post"
    then show ?thesis by (auto simp: prefix_def)
  qed
qed

lemma calls_listFunctionsFrom:
  "c \<in> set (calls (fst (listFunctionsFrom p fuel acc marker))) \<Longrightarrow> \<not> mutating c"
proof (induction fuel arbitrary: acc marker)
  case 0
  then show ?case by simp
next
  case (Suc fuel)
  show ?case
  proof (cases "ListFunctions p marker")
    case (Inl e)
    with Suc.prems show ?thesis by (auto simp: andThen_def orExit_def)
  next
    case (Inr r)
    show ?thesis
    proof (cases "appendNames acc (Functions r)")
      case None
      with Inr Suc.prems show ?thesis by (auto simp: andThen_def orExit_def)
    next
      case (Some acc')
      show ?thesis
      proof (cases "NextMarker r")
        case None
        with Inr Some Suc.prems show ?thesis by (auto simp: andThen_def orExit_def)
      next
        case (Some mk)
        with Inr \<open>appendNames acc (Functions r) = Some acc'\<close> Suc.prems
        have "c = ListFunctionsCall marker
              \<or> c \<in> set (calls (fst (listFunctionsFrom p fuel acc' (Some mk))))"
          by (auto simp: andThen_def orExit_def split: prod.splits)
        then show ?thesis using Suc.IH by auto
      qed
    qed
  qed
qed

lemma calls_GetAvailableBuckets: "calls (fst (GetAvailableBuckets p)) = [ListBucketsCall]"
  by (simp add: GetAvailableBuckets_def andThen_def orExit_def split: sum.splits option.splits)

lemma calls_InitAWSClient: "calls (fst (InitAWSClient m)) = []"
  by (simp add: InitAWSClient_def andThen_def orExit_def split: sum.splits)

lemma andThen_failed: "snd m = Inl h \<Longrightarrow> andThen m f = m"
  by (cases m) (simp add: andThen_def)

lemma snd_InitAWSClient:
  "snd (InitAWSClient m) = Inr u \<Longrightarrow> \<exists>x. perform m LoadDefaultConfig = Inr x"
  by (auto simp: InitAWSClient_def andThen_def orExit_def split: sum.splits)


lemma runDeploy_resolved:
  assumes "perform m LoadDefaultConfig = Inr x" "GetAvailableFunctions p fuel = (tf, Inr fs)"
    "contains fs (LambdaName cfg)" "GetAvailableBuckets p = (tb, Inr bs)"
    "contains bs (BuildsBucket cfg)"
  shows "fst (runDeploy p m cfg tail fuel)
      = (Local LoadDefaultConfig # tf @ tb)
        @ fst (andThen (Build p m cfg) (\<lambda>cfg'. andThen (Deploy p m cfg')
                 (\<lambda>_. if tail then TailLogs p cfg' fuel else ([], Inr ()))))"
  unfolding runDeploy_def
  by (simp only: InitAWSClient_ok [OF assms(1)] andThen_Inr [OF refl] andThen_Inr [OF assms(2)]
        andThen_Inr [OF requireListed_present [OF assms(3)]] andThen_Inr [OF assms(4)]
        andThen_Inr [OF requireListed_present [OF assms(5)]] fst_conv snd_conv append_Cons
        append_Nil append_assoc)

text \<open>
  C1, amended. In every run of \<open>runDeploy\<close>, before a mutating call (upload, code
  update, version publication, alias update; a deletion never occurs) the trace holds
  the complete listing of the functions and the listing of the buckets, both
  successful, and the configured function and builds bucket are in them. (The log group
  is looked up by \<open>TailLogs\<close> only, which runs after \<open>Deploy\<close>.)
\<close>

theorem mutation_only_after_function_and_bucket_found:
  assumes tr: "fst (runDeploy p m cfg tail fuel) = pre @ Call c # post" and mut: "mutating c"
  shows "\<exists>tf fs tb bs.
           GetAvailableFunctions p fuel = (tf, Inr fs) \<and> contains fs (LambdaName cfg)
           \<and> GetAvailableBuckets p = (tb, Inr bs) \<and> contains bs (BuildsBucket cfg)
           \<and> prefix (Local LoadDefaultConfig # tf @ tb) pre"
proof -
  have occurs: "c \<in> set (calls (fst (runDeploy p m cfg tail fuel)))"
    unfolding tr by (simp add: set_calls)
  obtain tf r1 where f: "GetAvailableFunctions p fuel = (tf, r1)" by (cases "GetAvailableFunctions p fuel")
  obtain tb r2 where b: "GetAvailableBuckets p = (tb, r2)" by (cases "GetAvailableBuckets p")
  have tf: "c \<notin> set (calls tf)"
    using calls_listFunctionsFrom [of c p fuel "[]" None] mut f
    by (auto simp: GetAvailableFunctions_def)
  have tb: "c \<notin> set (calls tb)"
    using calls_GetAvailableBuckets [of p] mut b by auto
  have init: "\<exists>x. perform m LoadDefaultConfig = Inr x"
  proof (cases "snd (InitAWSClient m)")
    case (Inl h)
    then have "runDeploy p m cfg tail fuel = InitAWSClient m"
      unfolding runDeploy_def by (rule andThen_failed)
    with occurs show ?thesis by (simp add: calls_InitAWSClient)
  next
    case (Inr u)
    then show ?thesis by (rule snd_InitAWSClient)
  qed
  then obtain x where x: "perform m LoadDefaultConfig = Inr x" ..
  note i = InitAWSClient_ok [OF x]
  obtain fs where fs: "r1 = Inr fs"
  proof (cases r1)
    case (Inl h)
    with f have "runDeploy p m cfg tail fuel = (Local LoadDefaultConfig # tf, Inl h)"
      unfolding runDeploy_def
      by (simp only: i andThen_Inr [OF refl] andThen_Inl [OF refl] fst_conv snd_conv append_Cons
            append_Nil)
    with occurs tf show ?thesis by simp
  next
    case (Inr fs)
    then show ?thesis by (rule that)
  qed
  note f' = f [unfolded fs]
  have cf: "contains fs (LambdaName cfg)"
  proof (rule ccontr)
    assume "\<not> contains fs (LambdaName cfg)"
    from runDeploy_function_absent [OF x f' this, of tail] occurs tf
    show False by (simp add: calls_append)
  qed
  obtain bs where bs: "r2 = Inr bs"
  proof (cases r2)
    case (Inl h)
    with b have "runDeploy p m cfg tail fuel = (Local LoadDefaultConfig # tf @ tb, Inl h)"
      unfolding runDeploy_def
      by (simp only: i andThen_Inr [OF refl] andThen_Inr [OF f']
            andThen_Inr [OF requireListed_present [OF cf]] andThen_Inl [OF refl]
            fst_conv snd_conv append_Cons append_Nil)
    with occurs tf tb show ?thesis by (simp add: calls_append)
  next
    case (Inr bs)
    then show ?thesis by (rule that)
  qed
  note b' = b [unfolded bs]
  have cb: "contains bs (BuildsBucket cfg)"
  proof (rule ccontr)
    assume "\<not> contains bs (BuildsBucket cfg)"
    from runDeploy_bucket_absent [OF x f' cf b' this, of tail] occurs tf tb
    show False by (simp add: calls_append)
  qed
  have notin: "Call c \<notin> set (Local LoadDefaultConfig # tf @ tb)"
    using tf tb by (simp add: set_calls)
  note split = trans [OF sym [OF runDeploy_resolved [OF x f' cf b' cb, of tail]] tr]
  have "prefix (Local LoadDefaultConfig # tf @ tb) pre"
    by (rule prefix_before_first [OF split notin])
  with f' cf b' cb show ?thesis by blast
qed


lemmas run_defs = runDeploy_def InitAWSClient_def GetAvailableFunctions_def GetAvailableBuckets_def
  Deploy_def uploadToS3_def TailLogs_def getAvailableLogGroups_def getARNofLogGroup_def

text \<open>
  C1, as stated, fails. With \<open>--tail\<close>, in an account that has the function and the
  bucket but not the log group \<open>/aws/lambda/orders-stag\<close>, the run uploads the archive,
  updates the code, publishes the version and repoints the alias, and only then lists the
  log groups; it ends with exit status 1 because the log group is missing.
\<close>

theorem mutating_calls_precede_log_group_check:
  "calls (fst (runDeploy prodOnly devbox (target ''orders'' ''stag'') True 2))
     = [ListFunctionsCall None, ListFunctionsCall (Some ''m1''), ListBucketsCall,
        GetFunctionConfigurationCall ''orders-stag'',
        UploadCall ''e4f-builds'' ''orders-stag-abc1234.zip'' ''orders-stag-abc1234.zip'' ''AES256'',
        UpdateFunctionCodeCall ''orders-stag'' ''e4f-builds'' ''orders-stag-abc1234.zip'',
        WaitFunctionUpdatedCall ''orders-stag'' (5 * Minute),
        PublishVersionCall ''orders-stag'',
        UpdateAliasCall ''orders-stag'' ''canary'' (Some ''7''),
        DescribeLogGroupsCall None None, DescribeLogGroupsCall None (Some ''t1'')]
   \<and> snd (runDeploy prodOnly devbox (target ''orders'' ''stag'') True 2) = Inl Exit1
   \<and> snd (getAvailableLogGroups prodOnly 2) = Inr [''/aws/lambda/orders-prod'']
   \<and> \<not> contains [''/aws/lambda/orders-prod''] (LogGroupName (target ''orders'' ''stag''))"
  by (simp add: prodOnly_def devbox_def scenario_defs proc_defs build_defs run_defs numeral_2_eq_2)


theorem mutation_only_after_function_and_bucket_found_witness:
  "fst (runDeploy prodOnly devbox (target ''orders'' ''stag'') False 2)
     = [Local LoadDefaultConfig, Call (ListFunctionsCall None), Call (ListFunctionsCall (Some ''m1'')),
        Call ListBucketsCall, Local (GitRevParse 0), Local (GitStatus 0),
        Call (GetFunctionConfigurationCall ''orders-stag''),
        Stdout (Println2 ''Architecture: '' ''[arm64]''),
        Local (GoBuild ''abc1234'' ''arm64''), Local (Chmod ''bootstrap''),
        Local (GitRevParse 1), Local (GitStatus 1),
        Local (CreateFile ''orders-stag-abc1234.zip''), Local (OpenFile ''bootstrap''),
        Local (ZipCreate ''bootstrap''), Local ZipCopy, Local ZipClose,
        Local (OpenFile ''orders-stag-abc1234.zip'')]
       @ Call (UploadCall ''e4f-builds'' ''orders-stag-abc1234.zip'' ''orders-stag-abc1234.zip''
                 ''AES256'')
       # [Stdout (Println1 ''Released orders-stag-abc1234.zip to e4f-builds''),
          Call (UpdateFunctionCodeCall ''orders-stag'' ''e4f-builds'' ''orders-stag-abc1234.zip''),
          Stdout (Println1 ''Waiting for the function to be updated...''),
          Call (WaitFunctionUpdatedCall ''orders-stag'' (5 * Minute)),
          Call (PublishVersionCall ''orders-stag''),
          Call (UpdateAliasCall ''orders-stag'' ''canary'' (Some ''7'')),
          Stdout (''Published new version 7 and updated alias '' @ [CHR 0x27] @ ''canary''
                  @ [CHR 0x27] @ '' to point to it'' @ [CHR 0x0A])]
   \<and> mutating (UploadCall ''e4f-builds'' ''orders-stag-abc1234.zip'' ''orders-stag-abc1234.zip''
                 ''AES256'')
   \<and> GetAvailableFunctions prodOnly 2
       = ([Call (ListFunctionsCall None), Call (ListFunctionsCall (Some ''m1''))],
          Inr [''orders-stag'', ''orders-prod'', ''svc-prod''])
   \<and> contains [''orders-stag'', ''orders-prod'', ''svc-prod''] (LambdaName (target ''orders'' ''stag''))
   \<and> GetAvailableBuckets prodOnly = ([Call ListBucketsCall], Inr [''e4f-builds''])
   \<and> contains [''e4f-builds''] (BuildsBucket (target ''orders'' ''stag''))"
  using mutation_only_after_function_and_bucket_found [of prodOnly devbox "target ''orders'' ''stag''" False 2
      "[Local LoadDefaultConfig, Call (ListFunctionsCall None), Call (ListFunctionsCall (Some ''m1'')),
        Call ListBucketsCall, Local (GitRevParse 0), Local (GitStatus 0),
        Call (GetFunctionConfigurationCall ''orders-stag''),
        Stdout (Println2 ''Architecture: '' ''[arm64]''),
        Local (GoBuild ''abc1234'' ''arm64''), Local (Chmod ''bootstrap''),
        Local (GitRevParse 1), Local (GitStatus 1),
        Local (CreateFile ''orders-stag-abc1234.zip''), Local (OpenFile ''bootstrap''),
        Local (ZipCreate ''bootstrap''), Local ZipCopy, Local ZipClose,
        Local (OpenFile ''orders-stag-abc1234.zip'')]"
      "UploadCall ''e4f-builds'' ''orders-stag-abc1234.zip'' ''orders-stag-abc1234.zip'' ''AES256''"
      "[Stdout (Println1 ''Released orders-stag-abc1234.zip to e4f-builds''),
          Call (UpdateFunctionCodeCall ''orders-stag'' ''e4f-builds'' ''orders-stag-abc1234.zip''),
          Stdout (Println1 ''Waiting for the function to be updated...''),
          Call (WaitFunctionUpdatedCall ''orders-stag'' (5 * Minute)),
          Call (PublishVersionCall ''orders-stag''),
          Call (UpdateAliasCall ''orders-stag'' ''canary'' (Some ''7'')),
          Stdout (''Published new version 7 and updated alias '' @ [CHR 0x27] @ ''canary''
                  @ [CHR 0x27] @ '' to point to it'' @ [CHR 0x0A])]"]
  by (simp add: prodOnly_def devbox_def scenario_defs proc_defs build_defs run_defs numeral_2_eq_2)

subsection \<open>The convergence waiter\<close>

text \<open>
  The waiter itself is the SDK's \<open>FunctionUpdatedV2Waiter\<close>; the pipeline hands it a
  ceiling of five minutes (300 seconds). When it returns an error, the run ends with
  exit status 1 and the wait is the last call it made: nothing is published, repointed
  or rolled back.
\<close>

lemma Deploy_waiter_error:
  "\<not> isl (perform m (OpenFile (SourceCodeFilename cfg)))
   \<and> Upload p (BuildsBucket cfg) (SourceCodeFilename cfg) (SourceCodeFilename cfg) ''AES256'' = None
   \<and> UpdateFunctionCode p (LambdaName cfg) (BuildsBucket cfg) (SourceCodeFilename cfg) = None
   \<and> WaitFunctionUpdated p (LambdaName cfg) (5 * Minute) = Some e
   \<longrightarrow> calls (fst (Deploy p m cfg))
         = [UploadCall (BuildsBucket cfg) (SourceCodeFilename cfg) (SourceCodeFilename cfg) ''AES256'',
            UpdateFunctionCodeCall (LambdaName cfg) (BuildsBucket cfg) (SourceCodeFilename cfg),
            WaitFunctionUpdatedCall (LambdaName cfg) (5 * Minute)]
       \<and> snd (Deploy p m cfg) = Inl Exit1"
  by (simp add: Deploy_calls Deploy_outcome)

lemma waiter_ceiling: "5 * Minute = 300 * 1000000000"
  by (simp add: Minute_def)

end
